theory Spec2Isabelle
  imports Main "HOL-Library.AList"
begin

section \<open>Bedrock agent proxy: data model\<close>

text \<open>
  The embedding follows \<^verbatim>\<open>src/bedrock_agent_proxy.py\<close>. A Python \<^verbatim>\<open>str\<close> is a
  \<^typ>\<open>string\<close> holding the UTF-8 encoding of the text, and a Python \<^verbatim>\<open>bytes\<close> object is
  a \<^typ>\<open>string\<close> holding its bytes. An exception raised by the source is a value of
  \<open>py_error\<close> on the left of a sum.
\<close>

datatype py_error = IndexError | TypeError | UnicodeDecodeError | ClientError

text \<open>
  One element of the \<^verbatim>\<open>messages\<close> array. The model covers the messages whose
  \<^verbatim>\<open>role\<close> and \<^verbatim>\<open>content\<close> keys both hold JSON strings; the role is any string, as in
  the source, which compares it with \<^verbatim>\<open>"user"\<close>, \<^verbatim>\<open>"system"\<close> and \<^verbatim>\<open>"assistant"\<close>.
\<close>

record message =
  role :: string
  content :: string

subsection \<open>Lines 120 to 152 of \<^verbatim>\<open>chat_completions\<close>: collapsing the conversation\<close>

text \<open>
  The loop over \<^verbatim>\<open>reversed(messages)\<close>: \<open>last_user_scan\<close> takes the reversed list and
  stops at the first message of role \<^verbatim>\<open>user\<close>; the initial value \<^verbatim>\<open>""\<close> is left when
  the loop ends without a \<^verbatim>\<open>break\<close>.
\<close>

fun last_user_scan :: "message list \<Rightarrow> string" where
  "last_user_scan [] = ''''"
| "last_user_scan (msg # rest) =
     (if role msg = ''user'' then content msg else last_user_scan rest)"

text \<open>
  Lines 121 to 129. The test \<^verbatim>\<open>if not last_user_message\<close> holds for the empty string;
  \<^verbatim>\<open>messages[-1]\<close> raises \<^verbatim>\<open>IndexError\<close> on the empty list. The boolean of the result
  tells whether the fallback branch (the one that logs the warning) was taken.
\<close>

definition find_anchor :: "message list \<Rightarrow> py_error + (string \<times> bool)" where
  "find_anchor messages =
     (let last_user_message = last_user_scan (rev messages) in
      if last_user_message = '''' then
        (if messages = [] then Inl IndexError
         else Inr (content (last messages), True))
      else Inr (last_user_message, False))"

text \<open>
  Lines 135 to 147: one round of the loop over \<^verbatim>\<open>messages[:-1]\<close>, on the pair of
  \<^verbatim>\<open>context\<close> and \<^verbatim>\<open>has_previous_messages\<close>. A message of any other role changes
  nothing.
\<close>

definition context_step :: "message \<Rightarrow> string \<times> bool \<Rightarrow> string \<times> bool" where
  "context_step msg st =
     (if role msg = ''system'' then
        (fst st @ ''System instruction: '' @ content msg @ ''\<newline>'', True)
      else if role msg = ''user'' then
        (fst st @ ''User: '' @ content msg @ ''\<newline>'', True)
      else if role msg = ''assistant'' then
        (fst st @ ''Assistant: '' @ content msg @ ''\<newline>'', True)
      else st)"

definition prepare_context :: "message list \<Rightarrow> string \<times> bool" where
  "prepare_context messages =
     fold context_step (butlast messages) (''Previous conversation:\<newline>'', False)"

text \<open>Lines 150 to 152.\<close>

definition full_input :: "message list \<Rightarrow> string \<Rightarrow> string" where
  "full_input messages last_user_message =
     (case prepare_context messages of
        (context, has_previous_messages) \<Rightarrow>
          if has_previous_messages
          then context @ ''\<newline>\<newline>Current message: '' @ last_user_message
          else last_user_message)"

text \<open>
  Lines 120 to 152 as one function: the text sent to the agent as \<^verbatim>\<open>inputText\<close>, and
  whether the fallback was used.
\<close>

definition collapse :: "message list \<Rightarrow> py_error + (string \<times> bool)" where
  "collapse messages =
     (case find_anchor messages of
        Inl e \<Rightarrow> Inl e
      | Inr (last_user_message, used_fallback) \<Rightarrow>
          Inr (full_input messages last_user_message, used_fallback))"

definition input_text :: "message list \<Rightarrow> py_error + string" where
  "input_text messages = map_sum id fst (collapse messages)"

subsection \<open>Lines 22 to 54: configuration read from the environment\<close>

text \<open>
  \<^verbatim>\<open>os.environ\<close> is the list of its entries in iteration order. \<open>environ_get\<close> is
  \<^verbatim>\<open>os.environ.get(key, default)\<close>.
\<close>

type_synonym environ = "(string \<times> string) list"

definition environ_get :: "environ \<Rightarrow> string \<Rightarrow> string \<Rightarrow> string" where
  "environ_get env key dflt = (case map_of env key of None \<Rightarrow> dflt | Some v \<Rightarrow> v)"

record agent_config =
  agent_id :: string
  alias_id :: string

text \<open>The \<^verbatim>\<open>AGENTS\<close> dictionary, in insertion order.\<close>

type_synonym registry = "(string \<times> agent_config) list"

text \<open>The character class \<^verbatim>\<open>[A-Z0-9_]\<close>.\<close>

definition name_char :: "char \<Rightarrow> bool" where
  "name_char c = (c \<in> set ''ABCDEFGHIJKLMNOPQRSTUVWXYZ0123456789_'')"

text \<open>
  \<^verbatim>\<open>agent_pattern.match(key)\<close> for the pattern \<^verbatim>\<open>AGENT_([A-Z0-9_]+)_ID\<close>, giving group 1.
  The match is anchored at the start of the key only. The group is greedy: of the first
  \<open>n\<close> characters after \<^verbatim>\<open>AGENT_\<close> that are in the class, it takes the longest non-empty
  prefix that is followed by \<^verbatim>\<open>_ID\<close>.
\<close>

definition agent_pattern_match :: "string \<Rightarrow> string option" where
  "agent_pattern_match key =
     (if take 6 key = ''AGENT_'' then
        (let r = drop 6 key;
             n = length (takeWhile name_char r)
         in case filter (\<lambda>k. take 3 (drop k r) = ''_ID'') (rev [1..<Suc n]) of
              [] \<Rightarrow> None
            | k # _ \<Rightarrow> Some (take k r))
      else None)"

text \<open>\<^verbatim>\<open>s.replace("_", "-")\<close>.\<close>

definition replace_underscores :: "string \<Rightarrow> string" where
  "replace_underscores s = map (\<lambda>c. if c = CHR ''_'' then CHR ''-'' else c) s"

definition alias_key_of :: "string \<Rightarrow> string" where
  "alias_key_of g = ''AGENT_'' @ g @ ''_ALIAS_ID''"

text \<open>
  Lines 42 to 54: the body of the loop for one entry of the environment. The test
  \<^verbatim>\<open>if alias_id\<close> fails for a missing variable and for an empty one. Assigning to a key
  of a dictionary keeps the key's place when it is already there, as \<open>AList.update\<close> does.
\<close>

definition load_agent_step :: "environ \<Rightarrow> string \<times> string \<Rightarrow> registry \<Rightarrow> registry" where
  "load_agent_step env entry agents =
     (case agent_pattern_match (fst entry) of
        None \<Rightarrow> agents
      | Some g \<Rightarrow>
          (case map_of env (alias_key_of g) of
             None \<Rightarrow> agents
           | Some alias \<Rightarrow>
               if alias = '''' then agents
               else AList.update (replace_underscores g)
                      \<lparr>agent_id = snd entry, alias_id = alias\<rparr> agents))"

definition load_agents :: "environ \<Rightarrow> registry" where
  "load_agents env = fold (load_agent_step env) env []"

record config =
  AGENTS :: registry
  DEFAULT_AGENT :: string
  API_KEY :: string

definition load_config :: "environ \<Rightarrow> config" where
  "load_config env =
     \<lparr>AGENTS = load_agents env,
      DEFAULT_AGENT = environ_get env ''DEFAULT_AGENT'' ''COBWEBAI-ALIAS'',
      API_KEY = environ_get env ''API_KEY'' ''bedrock-agent-proxy-key''\<rparr>"

subsection \<open>String methods of the Python library\<close>

text \<open>
  \<^verbatim>\<open>str.lower()\<close> on the ASCII letters. The source only compares the result with the
  literals \<^verbatim>\<open>"none"\<close> and \<^verbatim>\<open>"bearer"\<close>, and no character outside ASCII is lowered to one
  of their letters, so the comparisons are those of the source.
\<close>

definition py_lower :: "string \<Rightarrow> string" where
  "py_lower s =
     map (\<lambda>c. if c \<in> set ''ABCDEFGHIJKLMNOPQRSTUVWXYZ''
               then char_of (of_char c + (32::nat)) else c) s"

text \<open>
  The white space of \<^verbatim>\<open>str.split()\<close>, each code point in UTF-8: U+0009 to U+000D,
  U+001C to U+0020, U+0085, U+00A0, U+1680, U+2000 to U+200A, U+2028, U+2029, U+202F,
  U+205F and U+3000.
\<close>

definition py_whitespace :: "string list" where
  "py_whitespace =
     [[CHR 0x09], [CHR 0x0A], [CHR 0x0B], [CHR 0x0C], [CHR 0x0D],
      [CHR 0x1C], [CHR 0x1D], [CHR 0x1E], [CHR 0x1F], [CHR 0x20],
      [CHR 0xC2, CHR 0x85], [CHR 0xC2, CHR 0xA0],
      [CHR 0xE1, CHR 0x9A, CHR 0x80],
      [CHR 0xE2, CHR 0x80, CHR 0x80], [CHR 0xE2, CHR 0x80, CHR 0x81],
      [CHR 0xE2, CHR 0x80, CHR 0x82], [CHR 0xE2, CHR 0x80, CHR 0x83],
      [CHR 0xE2, CHR 0x80, CHR 0x84], [CHR 0xE2, CHR 0x80, CHR 0x85],
      [CHR 0xE2, CHR 0x80, CHR 0x86], [CHR 0xE2, CHR 0x80, CHR 0x87],
      [CHR 0xE2, CHR 0x80, CHR 0x88], [CHR 0xE2, CHR 0x80, CHR 0x89],
      [CHR 0xE2, CHR 0x80, CHR 0x8A],
      [CHR 0xE2, CHR 0x80, CHR 0xA8], [CHR 0xE2, CHR 0x80, CHR 0xA9],
      [CHR 0xE2, CHR 0x80, CHR 0xAF], [CHR 0xE2, CHR 0x81, CHR 0x9F],
      [CHR 0xE3, CHR 0x80, CHR 0x80]]"

text \<open>The number of bytes of the white-space code point that \<open>s\<close> starts with, or 0.\<close>

definition space_len :: "string \<Rightarrow> nat" where
  "space_len s =
     (case filter (\<lambda>w. take (length w) s = w) py_whitespace of
        [] \<Rightarrow> 0
      | w # _ \<Rightarrow> length w)"

text \<open>
  \<^verbatim>\<open>str.split()\<close> without arguments: the maximal runs of characters that are not white
  space, in order. \<open>tok\<close> is the run read so far.
\<close>

fun split_from :: "string \<Rightarrow> string \<Rightarrow> string list" where
  "split_from tok [] = (if tok = [] then [] else [tok])"
| "split_from tok (c # cs) =
     (if space_len (c # cs) = 0 then split_from (tok @ [c]) cs
      else (if tok = [] then [] else [tok])
           @ split_from [] (drop (space_len (c # cs) - 1) cs))"

definition py_split :: "string \<Rightarrow> string list" where
  "py_split s = split_from [] s"

text \<open>
  \<^verbatim>\<open>bytes.decode("utf-8")\<close>. \<open>utf8_scan n lo hi bs\<close> reads well-formed UTF-8 when \<open>n\<close>
  continuation bytes are still due, the next of them between \<open>lo\<close> and \<open>hi\<close>. The decoded
  text is represented by the same bytes.
\<close>

fun utf8_scan :: "nat \<Rightarrow> nat \<Rightarrow> nat \<Rightarrow> string \<Rightarrow> bool" where
  "utf8_scan n lo hi [] = (n = 0)"
| "utf8_scan n lo hi (c # cs) =
     (let b = (of_char c :: nat) in
      if n = 0 then
        (if b < 0x80 then utf8_scan 0 0x80 0xBF cs
         else if 0xC2 \<le> b \<and> b \<le> 0xDF then utf8_scan 1 0x80 0xBF cs
         else if b = 0xE0 then utf8_scan 2 0xA0 0xBF cs
         else if b = 0xED then utf8_scan 2 0x80 0x9F cs
         else if 0xE1 \<le> b \<and> b \<le> 0xEF then utf8_scan 2 0x80 0xBF cs
         else if b = 0xF0 then utf8_scan 3 0x90 0xBF cs
         else if 0xF1 \<le> b \<and> b \<le> 0xF3 then utf8_scan 3 0x80 0xBF cs
         else if b = 0xF4 then utf8_scan 3 0x80 0x8F cs
         else False)
      else lo \<le> b \<and> b \<le> hi \<and> utf8_scan (n - 1) 0x80 0xBF cs)"

definition decode_utf8 :: "string \<Rightarrow> py_error + string" where
  "decode_utf8 bs = (if utf8_scan 0 0x80 0xBF bs then Inr bs else Inl UnicodeDecodeError)"

text \<open>\<^verbatim>\<open>bytes.hex()\<close>: two lower-case hexadecimal digits for each byte.\<close>

definition hex_digit :: "nat \<Rightarrow> char" where
  "hex_digit d = ''0123456789abcdef'' ! d"

definition hex :: "string \<Rightarrow> string" where
  "hex bs = concat (map (\<lambda>c. [hex_digit (of_char c div 16), hex_digit (of_char c mod 16)]) bs)"

subsection \<open>The HTTP request\<close>

text \<open>
  What the handlers read of Flask's \<^verbatim>\<open>request\<close>: the \<^verbatim>\<open>Authorization\<close> header, and the
  keys of the JSON object in the body, each \<open>None\<close> when the key is absent.
\<close>

record http_request =
  authorization :: "string option"
  json_messages :: "message list option"
  json_model :: "string option"
  json_stream :: "bool option"
  json_session_id :: "string option"

subsection \<open>Lines 64 to 93: \<^verbatim>\<open>validate_api_key\<close>\<close>

definition validate_api_key :: "config \<Rightarrow> http_request \<Rightarrow> bool" where
  "validate_api_key cfg request =
     (if API_KEY cfg = '''' \<or> py_lower (API_KEY cfg) = ''none'' then True
      else
        (case authorization request of
           None \<Rightarrow> False
         | Some auth_header \<Rightarrow>
             if auth_header = '''' then False
             else
               (let parts = py_split auth_header in
                if length parts \<noteq> 2 \<or> py_lower (parts ! 0) \<noteq> ''bearer'' then False
                else if parts ! 1 \<noteq> API_KEY cfg then False
                else True)))"

subsection \<open>Lines 283 to 315: \<^verbatim>\<open>list_models\<close>\<close>

record error_object =
  err_message :: string
  err_type :: string
  err_param :: "string option"
  err_code :: string

record model_entry =
  entry_id :: string
  entry_object :: string
  entry_created :: int
  entry_owned_by :: string

text \<open>The JSON body of the answer and its HTTP status.\<close>

datatype models_body =
    ErrorBody error_object
  | ModelsList string "model_entry list"

definition list_models :: "config \<Rightarrow> http_request \<Rightarrow> models_body \<times> nat" where
  "list_models cfg request =
     (if \<not> validate_api_key cfg request then
        (ErrorBody \<lparr>err_message = ''Invalid API key'',
                    err_type = ''invalid_request_error'',
                    err_param = None,
                    err_code = ''invalid_api_key''\<rparr>, 401)
      else
        (ModelsList ''list''
           (map (\<lambda>(name, agent_config).
                   \<lparr>entry_id = name, entry_object = ''model'',
                    entry_created = 1677610602, entry_owned_by = ''aws-bedrock''\<rparr>)
                (AGENTS cfg)), 200))"

subsection \<open>Lines 110 to 118: the agent of a model identifier\<close>

text \<open>
  Every value of \<^verbatim>\<open>AGENTS\<close> is a dictionary of two keys, so \<^verbatim>\<open>not agent_config\<close> holds
  exactly when the lookup gave \<^verbatim>\<open>None\<close>. Subscripting \<^verbatim>\<open>None\<close> on line 117 raises
  \<^verbatim>\<open>TypeError\<close>.
\<close>

definition resolve_agent :: "config \<Rightarrow> string \<Rightarrow> py_error + agent_config" where
  "resolve_agent cfg model_id =
     (case map_of (AGENTS cfg) model_id of
        Some agent_config \<Rightarrow> Inr agent_config
      | None \<Rightarrow>
          (case map_of (AGENTS cfg) (DEFAULT_AGENT cfg) of
             Some agent_config \<Rightarrow> Inr agent_config
           | None \<Rightarrow> Inl TypeError))"

subsection \<open>Lines 177 to 235: \<^verbatim>\<open>generate_stream\<close>\<close>

text \<open>
  An event of \<^verbatim>\<open>response["completion"]\<close>: one with the key \<^verbatim>\<open>chunk\<close>, carrying its
  \<^verbatim>\<open>bytes\<close>, or any other event. The completion is the finite list of the events the
  backend delivers.
\<close>

datatype event = Chunk string | OtherEvent

record chunk_delta =
  delta_role :: "string option"
  delta_content :: "string option"

record chunk_choice =
  choice_index :: nat
  choice_delta :: chunk_delta
  choice_finish_reason :: "string option"

record chat_chunk =
  chunk_id :: string
  chunk_object :: string
  chunk_created :: int
  chunk_model :: string
  chunk_choices :: "chunk_choice list"

text \<open>
  What the generator yields: \<open>Data c\<close> is the line \<^verbatim>\<open>data: \<close> followed by the JSON text of
  \<open>c\<close> and two newlines, \<open>Done\<close> is the line \<^verbatim>\<open>data: [DONE]\<close> with its two newlines.
\<close>

datatype sse = Data chat_chunk | Done

definition role_chunk :: "string \<Rightarrow> int \<Rightarrow> string \<Rightarrow> chat_chunk" where
  "role_chunk response_id created_time model =
     \<lparr>chunk_id = response_id, chunk_object = ''chat.completion.chunk'',
      chunk_created = created_time, chunk_model = model,
      chunk_choices =
        [\<lparr>choice_index = 0,
          choice_delta = \<lparr>delta_role = Some ''assistant'', delta_content = None\<rparr>,
          choice_finish_reason = None\<rparr>]\<rparr>"

definition content_chunk :: "string \<Rightarrow> int \<Rightarrow> string \<Rightarrow> string \<Rightarrow> chat_chunk" where
  "content_chunk response_id created_time model text =
     \<lparr>chunk_id = response_id, chunk_object = ''chat.completion.chunk'',
      chunk_created = created_time, chunk_model = model,
      chunk_choices =
        [\<lparr>choice_index = 0,
          choice_delta = \<lparr>delta_role = None, delta_content = Some text\<rparr>,
          choice_finish_reason = None\<rparr>]\<rparr>"

definition final_chunk :: "string \<Rightarrow> int \<Rightarrow> string \<Rightarrow> chat_chunk" where
  "final_chunk response_id created_time model =
     \<lparr>chunk_id = response_id, chunk_object = ''chat.completion.chunk'',
      chunk_created = created_time, chunk_model = model,
      chunk_choices =
        [\<lparr>choice_index = 0,
          choice_delta = \<lparr>delta_role = None, delta_content = None\<rparr>,
          choice_finish_reason = Some ''stop''\<rparr>]\<rparr>"

text \<open>
  Lines 197 to 235: the loop over the events and what follows it. The result is what is
  yielded, in order, and the exception that ends the generator, if one does: a chunk
  whose bytes do not decode raises after the frames before it were yielded.
\<close>

fun stream_events :: "string \<Rightarrow> int \<Rightarrow> string \<Rightarrow> event list \<Rightarrow> sse list \<times> py_error option" where
  "stream_events response_id created_time model [] =
     ([Data (final_chunk response_id created_time model), Done], None)"
| "stream_events response_id created_time model (OtherEvent # events) =
     stream_events response_id created_time model events"
| "stream_events response_id created_time model (Chunk bytes # events) =
     (case decode_utf8 bytes of
        Inl e \<Rightarrow> ([], Some e)
      | Inr text \<Rightarrow>
          (case stream_events response_id created_time model events of
             (frames, raised) \<Rightarrow>
               ((if text \<noteq> '''' then [Data (content_chunk response_id created_time model text)]
                 else []) @ frames, raised)))"

definition generate_stream :: "string \<Rightarrow> int \<Rightarrow> string \<Rightarrow> event list \<Rightarrow> sse list \<times> py_error option" where
  "generate_stream response_id created_time model events =
     (case stream_events response_id created_time model events of
        (frames, raised) \<Rightarrow> (Data (role_chunk response_id created_time model) # frames, raised))"

subsection \<open>Lines 252 to 281: the aggregated answer\<close>

text \<open>Lines 252 to 255, from the value \<open>completion\<close> has so far.\<close>

fun collect_completion :: "string \<Rightarrow> event list \<Rightarrow> py_error + string" where
  "collect_completion completion [] = Inr completion"
| "collect_completion completion (OtherEvent # events) = collect_completion completion events"
| "collect_completion completion (Chunk bytes # events) =
     (case decode_utf8 bytes of
        Inl e \<Rightarrow> Inl e
      | Inr text \<Rightarrow> collect_completion (completion @ text) events)"

record completion_message =
  message_role :: string
  message_content :: string

record completion_choice =
  completion_index :: nat
  completion_message :: completion_message
  completion_finish_reason :: string

record usage =
  prompt_tokens :: int
  completion_tokens :: int
  total_tokens :: int

record chat_completion =
  completion_id :: string
  completion_object :: string
  completion_created :: int
  completion_model :: string
  completion_choices :: "completion_choice list"
  completion_usage :: usage

definition openai_response :: "string \<Rightarrow> int \<Rightarrow> string \<Rightarrow> string \<Rightarrow> chat_completion" where
  "openai_response response_id created_time model completion =
     \<lparr>completion_id = response_id, completion_object = ''chat.completion'',
      completion_created = created_time, completion_model = model,
      completion_choices =
        [\<lparr>completion_index = 0,
          completion_message = \<lparr>message_role = ''assistant'', message_content = completion\<rparr>,
          completion_finish_reason = ''stop''\<rparr>],
      completion_usage = \<lparr>prompt_tokens = - 1, completion_tokens = - 1, total_tokens = - 1\<rparr>\<rparr>"

subsection \<open>Lines 96 to 281: \<^verbatim>\<open>chat_completions\<close>\<close>

record agent_request =
  agentId :: string
  agentAliasId :: string
  sessionId :: string
  inputText :: string
  enableTrace :: bool

text \<open>
  What the handler reads of the system during one request: the bytes of the two calls of
  \<^verbatim>\<open>os.urandom(4)\<close>, in the order of the calls, and the value of \<^verbatim>\<open>int(time.time())\<close>.
  The default of \<^verbatim>\<open>data.get("session_id", ...)\<close> is evaluated whether or not the key is
  there.
\<close>

record system_reads =
  urandom_session :: string
  urandom_response :: string
  time_now :: int

text \<open>
  Lines 105 to 164. The agent is looked up before the messages are read, so an unknown
  agent raises first.
\<close>

definition build_agent_request :: "config \<Rightarrow> system_reads \<Rightarrow> http_request \<Rightarrow> py_error + agent_request" where
  "build_agent_request cfg sys request =
     (let messages = (case json_messages request of None \<Rightarrow> [] | Some ms \<Rightarrow> ms);
          model = (case json_model request of None \<Rightarrow> DEFAULT_AGENT cfg | Some m \<Rightarrow> m)
      in case resolve_agent cfg model of
           Inl e \<Rightarrow> Inl e
         | Inr agent_config \<Rightarrow>
             (case input_text messages of
                Inl e \<Rightarrow> Inl e
              | Inr full \<Rightarrow>
                  Inr \<lparr>agentId = agent_id agent_config,
                       agentAliasId = alias_id agent_config,
                       sessionId =
                         (case json_session_id request of
                            None \<Rightarrow> ''session-'' @ model @ ''-'' @ hex (urandom_session sys)
                          | Some s \<Rightarrow> s),
                       inputText = full,
                       enableTrace = False\<rparr>))"

text \<open>
  The answer of the handler: the JSON body of the aggregated mode, or the streaming
  response with its MIME type, its headers and what its generator yields.
\<close>

datatype http_response =
    JsonResponse chat_completion
  | StreamResponse string "(string \<times> string) list" "sse list \<times> py_error option"

text \<open>
  The whole handler. \<open>invoke_agent\<close> is the call of the backend on line 169: it gives the
  events of the completion, or raises. The \<^verbatim>\<open>try\<close> of line 100 has no handler in the
  source, so every exception leaves the function.
\<close>

definition chat_completions ::
  "config \<Rightarrow> (agent_request \<Rightarrow> py_error + event list) \<Rightarrow> system_reads \<Rightarrow> http_request
     \<Rightarrow> py_error + http_response" where
  "chat_completions cfg invoke_agent sys request =
     (let model = (case json_model request of None \<Rightarrow> DEFAULT_AGENT cfg | Some m \<Rightarrow> m);
          stream_mode = (case json_stream request of None \<Rightarrow> False | Some b \<Rightarrow> b)
      in case build_agent_request cfg sys request of
           Inl e \<Rightarrow> Inl e
         | Inr agent_request \<Rightarrow>
             (case invoke_agent agent_request of
                Inl e \<Rightarrow> Inl e
              | Inr events \<Rightarrow>
                  (let response_id = ''chatcmpl-'' @ model @ ''-'' @ hex (urandom_response sys);
                       created_time = time_now sys
                   in if stream_mode then
                        Inr (StreamResponse ''text/event-stream''
                               [(''Cache-Control'', ''no-cache''),
                                (''Connection'', ''keep-alive''),
                                (''X-Accel-Buffering'', ''no''),
                                (''Transfer-Encoding'', ''chunked'')]
                               (generate_stream response_id created_time model events))
                      else
                        (case collect_completion '''' events of
                           Inl e \<Rightarrow> Inl e
                         | Inr completion \<Rightarrow>
                             Inr (JsonResponse
                                    (openai_response response_id created_time model completion))))))"

subsection \<open>Observations used to state the properties\<close>

text \<open>The text of every chunk event that decodes, in the order of the events.\<close>

fun decoded_fragments :: "event list \<Rightarrow> string list" where
  "decoded_fragments [] = []"
| "decoded_fragments (OtherEvent # events) = decoded_fragments events"
| "decoded_fragments (Chunk bytes # events) =
     (case decode_utf8 bytes of
        Inl e \<Rightarrow> decoded_fragments events
      | Inr text \<Rightarrow> text # decoded_fragments events)"

text \<open>The \<^verbatim>\<open>delta.content\<close> fields of a sequence of frames, in order.\<close>

definition frame_contents :: "sse list \<Rightarrow> string list" where
  "frame_contents frames =
     concat (map (\<lambda>f. case f of
                         Done \<Rightarrow> []
                       | Data c \<Rightarrow>
                           concat (map (\<lambda>ch. case delta_content (choice_delta ch) of
                                                None \<Rightarrow> [] | Some text \<Rightarrow> [text])
                                       (chunk_choices c)))
                 frames)"

text \<open>The \<^verbatim>\<open>finish_reason\<close> fields of a frame; the \<^verbatim>\<open>[DONE]\<close> line has none.\<close>

definition finish_reasons :: "sse \<Rightarrow> string option list" where
  "finish_reasons f =
     (case f of Done \<Rightarrow> [] | Data c \<Rightarrow> map choice_finish_reason (chunk_choices c))"

subsection \<open>A concrete environment, configuration and request\<close>

text \<open>An environment with one complete agent, one agent without alias and another variable.\<close>

definition example_environ :: environ where
  "example_environ =
     [(''AGENT_MY_BOT_ID'', ''A1''), (''AGENT_MY_BOT_ALIAS_ID'', ''L1''),
      (''AGENT_X_ID'', ''A2''), (''PATH'', ''/bin'')]"

definition example_config :: config where
  "example_config =
     \<lparr>AGENTS = [(''MY-BOT'', \<lparr>agent_id = ''A1'', alias_id = ''L1''\<rparr>)],
      DEFAULT_AGENT = ''MY-BOT'',
      API_KEY = ''bedrock-agent-proxy-key''\<rparr>"

definition example_reads :: system_reads where
  "example_reads =
     \<lparr>urandom_session = [CHR 0x01, CHR 0x02, CHR 0x03, CHR 0x04],
      urandom_response = [CHR 0x0a, CHR 0x0b, CHR 0x0c, CHR 0x0d],
      time_now = 1700000000\<rparr>"

text \<open>A request with the given \<^verbatim>\<open>Authorization\<close> header and an empty JSON object.\<close>

definition request_with_header :: "string option \<Rightarrow> http_request" where
  "request_with_header header =
     \<lparr>authorization = header, json_messages = None, json_model = None,
      json_stream = None, json_session_id = None\<rparr>"

text \<open>A backend that answers with one chunk holding the input text it was given.\<close>

definition echo_agent :: "agent_request \<Rightarrow> py_error + event list" where
  "echo_agent agent_request = Inr [Chunk (inputText agent_request)]"

section \<open>The conversation collapser\<close>

lemma last_user_scan_filter:
  "last_user_scan ms =
     (case filter (\<lambda>m. role m = ''user'') ms of [] \<Rightarrow> '''' | m # _ \<Rightarrow> content m)"
  by (induction ms) auto

lemma last_user_scan_rev:
  "last_user_scan (rev ms) =
     (if filter (\<lambda>m. role m = ''user'') ms = [] then ''''
      else content (last (filter (\<lambda>m. role m = ''user'') ms)))"
proof -
  let ?us = "filter (\<lambda>m. role m = ''user'') ms"
  have "filter (\<lambda>m. role m = ''user'') (rev ms) = rev ?us"
    by (simp add: rev_filter)
  then show ?thesis
    by (cases "rev ?us")
       (auto simp: last_user_scan_filter hd_rev[symmetric] simp del: rev_is_Nil_conv
             split: list.splits)
qed

lemma fold_context_step_snd:
  "snd (fold context_step ms st) =
     (snd st \<or> (\<exists>m\<in>set ms. role m \<in> {''system'', ''user'', ''assistant''}))"
  by (induction ms arbitrary: st) (auto simp: context_step_def)

lemma has_previous_iff:
  "snd (prepare_context ms) =
     (\<exists>m\<in>set (butlast ms). role m \<in> {''system'', ''user'', ''assistant''})"
  by (simp add: prepare_context_def fold_context_step_snd)

lemma full_input_suffix: "\<exists>pre. full_input ms a = pre @ a"
  by (auto simp: full_input_def split: prod.splits)

lemma full_input_nonempty_iff:
  "full_input ms a \<noteq> '''' \<longleftrightarrow>
     a \<noteq> '''' \<or> (\<exists>m\<in>set (butlast ms). role m \<in> {''system'', ''user'', ''assistant''})"
  using has_previous_iff[of ms]
  by (auto simp: full_input_def split: prod.splits)

text \<open>
  C1, as the code has it. For a non-empty message list the collapser returns; the input
  text ends with the anchor. When no message has the role \<^verbatim>\<open>user\<close> the anchor is the
  content of the last message and the fallback is marked. When the last message of role
  \<^verbatim>\<open>user\<close> has a non-empty content, that content is the anchor and no fallback is marked.
  The input text is non-empty exactly when the anchor is non-empty or a message before the
  last one has the role \<^verbatim>\<open>system\<close>, \<^verbatim>\<open>user\<close> or \<^verbatim>\<open>assistant\<close>.
\<close>

theorem collapse_anchor:
  assumes "messages \<noteq> []"
  shows "\<exists>anchor used_fallback.
           find_anchor messages = Inr (anchor, used_fallback)
         \<and> collapse messages = Inr (full_input messages anchor, used_fallback)
         \<and> (filter (\<lambda>m. role m = ''user'') messages = [] \<longrightarrow>
               anchor = content (last messages) \<and> used_fallback)
         \<and> (filter (\<lambda>m. role m = ''user'') messages \<noteq> []
              \<and> content (last (filter (\<lambda>m. role m = ''user'') messages)) \<noteq> '''' \<longrightarrow>
               anchor = content (last (filter (\<lambda>m. role m = ''user'') messages))
               \<and> \<not> used_fallback)
         \<and> (\<exists>pre. full_input messages anchor = pre @ anchor)
         \<and> (full_input messages anchor \<noteq> '''' \<longleftrightarrow>
               anchor \<noteq> ''''
               \<or> (\<exists>m\<in>set (butlast messages). role m \<in> {''system'', ''user'', ''assistant''}))"
  using assms full_input_suffix full_input_nonempty_iff
  by (auto simp: find_anchor_def collapse_def last_user_scan_rev Let_def)

theorem collapse_anchor_witness:
  "[\<lparr>role = ''assistant'', content = ''Hello''\<rparr>, \<lparr>role = ''user'', content = ''Hi''\<rparr>] \<noteq> []
   \<and> find_anchor [\<lparr>role = ''assistant'', content = ''Hello''\<rparr>, \<lparr>role = ''user'', content = ''Hi''\<rparr>]
       = Inr (''Hi'', False)
   \<and> collapse [\<lparr>role = ''assistant'', content = ''Hello''\<rparr>, \<lparr>role = ''user'', content = ''Hi''\<rparr>]
       = Inr (''Previous conversation:\<newline>Assistant: Hello\<newline>\<newline>\<newline>Current message: Hi'', False)
   \<and> [\<lparr>role = ''assistant'', content = ''Hello''\<rparr>] \<noteq> []
   \<and> find_anchor [\<lparr>role = ''assistant'', content = ''Hello''\<rparr>] = Inr (''Hello'', True)
   \<and> collapse [\<lparr>role = ''assistant'', content = ''Hello''\<rparr>] = Inr (''Hello'', True)"
  using collapse_anchor[of "[\<lparr>role = ''assistant'', content = ''Hello''\<rparr>, \<lparr>role = ''user'', content = ''Hi''\<rparr>]"]
        collapse_anchor[of "[\<lparr>role = ''assistant'', content = ''Hello''\<rparr>]"]
  by (auto simp: full_input_def prepare_context_def context_step_def)

text \<open>
  C1 as the specification states it is false: a single message of role \<^verbatim>\<open>user\<close> with
  the empty content gives the empty input text, and the fallback is marked.
\<close>

theorem collapse_empty_user_counterexample:
  "collapse [\<lparr>role = ''user'', content = ''''\<rparr>] = Inr ('''', True)"
  by (simp add: collapse_def find_anchor_def full_input_def prepare_context_def)

text \<open>
  C4, as the code computes it: for the messages \<^verbatim>\<open>[{system, "Be terse"}, {user, "Hi"}]\<close>
  the input text is the transcript, which opens with the heading
  \<^verbatim>\<open>"Previous conversation:\n"\<close>, then two newlines, then the current message.
\<close>

theorem collapse_scenario_system_user:
  "input_text [\<lparr>role = ''system'', content = ''Be terse''\<rparr>, \<lparr>role = ''user'', content = ''Hi''\<rparr>]
     = Inr ''Previous conversation:\<newline>System instruction: Be terse\<newline>\<newline>\<newline>Current message: Hi''
   \<and> collapse [\<lparr>role = ''system'', content = ''Be terse''\<rparr>, \<lparr>role = ''user'', content = ''Hi''\<rparr>]
     = Inr (''Previous conversation:\<newline>System instruction: Be terse\<newline>\<newline>\<newline>Current message: Hi'', False)"
  by (simp add: input_text_def collapse_def find_anchor_def full_input_def prepare_context_def
        context_step_def)

text \<open>
  C4 as the specification states it is false: the input text is not the transcript without
  its heading.
\<close>

theorem collapse_scenario_without_heading_counterexample:
  "input_text [\<lparr>role = ''system'', content = ''Be terse''\<rparr>, \<lparr>role = ''user'', content = ''Hi''\<rparr>]
     \<noteq> Inr ''System instruction: Be terse\<newline>\<newline>\<newline>Current message: Hi''"
  by (simp add: input_text_def collapse_def find_anchor_def full_input_def prepare_context_def
        context_step_def)

section \<open>The response relay\<close>

lemma stream_events_decoded:
  "\<forall>bytes. Chunk bytes \<in> set events \<longrightarrow> decode_utf8 bytes \<noteq> Inl UnicodeDecodeError \<Longrightarrow>
   stream_events rid ct m events =
     (map (\<lambda>text. Data (content_chunk rid ct m text))
          (filter (\<lambda>text. text \<noteq> '''') (decoded_fragments events))
        @ [Data (final_chunk rid ct m), Done], None)"
proof (induction events)
  case Nil
  then show ?case by simp
next
  case (Cons e events)
  then show ?case
  proof (cases e)
    case (Chunk bytes)
    with Cons.prems have "decode_utf8 bytes = Inr bytes"
      by (auto simp: decode_utf8_def split: if_splits)
    with Cons Chunk show ?thesis by simp
  next
    case OtherEvent
    with Cons show ?thesis by simp
  qed
qed

text \<open>
  C2. When every chunk of the backend decodes, the generator yields exactly: the frame
  whose delta has the role \<^verbatim>\<open>assistant\<close> and no finish reason; then one frame for each
  non-empty decoded fragment in the order of the backend, with that fragment as the
  content of its delta and no finish reason; then the frame with the empty delta and the
  \<^verbatim>\<open>finish_reason\<close> \<^verbatim>\<open>"stop"\<close>; then the \<^verbatim>\<open>[DONE]\<close> line; and it ends without an
  exception. Empty fragments and events that carry no chunk give no frame. Exactly one
  frame has the finish reason \<^verbatim>\<open>"stop"\<close> and there is exactly one \<^verbatim>\<open>[DONE]\<close> line,
  however many fragments there are.
\<close>

theorem generate_stream_frames:
  assumes "\<forall>bytes. Chunk bytes \<in> set events \<longrightarrow> decode_utf8 bytes \<noteq> Inl UnicodeDecodeError"
  shows "generate_stream response_id created_time model events =
           (Data \<lparr>chunk_id = response_id, chunk_object = ''chat.completion.chunk'',
                   chunk_created = created_time, chunk_model = model,
                   chunk_choices =
                     [\<lparr>choice_index = 0,
                       choice_delta = \<lparr>delta_role = Some ''assistant'', delta_content = None\<rparr>,
                       choice_finish_reason = None\<rparr>]\<rparr>
              # map (\<lambda>text.
                       Data \<lparr>chunk_id = response_id, chunk_object = ''chat.completion.chunk'',
                              chunk_created = created_time, chunk_model = model,
                              chunk_choices =
                                [\<lparr>choice_index = 0,
                                  choice_delta = \<lparr>delta_role = None, delta_content = Some text\<rparr>,
                                  choice_finish_reason = None\<rparr>]\<rparr>)
                    (filter (\<lambda>text. text \<noteq> '''') (decoded_fragments events))
              @ [Data \<lparr>chunk_id = response_id, chunk_object = ''chat.completion.chunk'',
                        chunk_created = created_time, chunk_model = model,
                        chunk_choices =
                          [\<lparr>choice_index = 0,
                            choice_delta = \<lparr>delta_role = None, delta_content = None\<rparr>,
                            choice_finish_reason = Some ''stop''\<rparr>]\<rparr>,
                 Done],
            None)
       \<and> length (filter (\<lambda>f. Some ''stop'' \<in> set (finish_reasons f))
                   (fst (generate_stream response_id created_time model events))) = 1
       \<and> length (filter (\<lambda>f. f = Done)
                   (fst (generate_stream response_id created_time model events))) = 1"
proof -
  have eq: "generate_stream response_id created_time model events =
           (Data (role_chunk response_id created_time model)
              # map (\<lambda>text. Data (content_chunk response_id created_time model text))
                    (filter (\<lambda>text. text \<noteq> '''') (decoded_fragments events))
              @ [Data (final_chunk response_id created_time model), Done],
            None)"
    using stream_events_decoded[OF assms] by (simp add: generate_stream_def)
  have n1: "filter (\<lambda>f. Some ''stop'' \<in> set (finish_reasons f))
              (map (\<lambda>text. Data (content_chunk response_id created_time model text)) ts) = []" for ts
    by (induction ts) (simp_all add: finish_reasons_def content_chunk_def)
  have n2: "filter (\<lambda>f. f = Done)
              (map (\<lambda>text. Data (content_chunk response_id created_time model text)) ts) = []" for ts
    by (induction ts) simp_all
  show ?thesis
  proof (intro conjI)
    show "generate_stream response_id created_time model events =
           (Data \<lparr>chunk_id = response_id, chunk_object = ''chat.completion.chunk'',
                   chunk_created = created_time, chunk_model = model,
                   chunk_choices =
                     [\<lparr>choice_index = 0,
                       choice_delta = \<lparr>delta_role = Some ''assistant'', delta_content = None\<rparr>,
                       choice_finish_reason = None\<rparr>]\<rparr>
              # map (\<lambda>text.
                       Data \<lparr>chunk_id = response_id, chunk_object = ''chat.completion.chunk'',
                              chunk_created = created_time, chunk_model = model,
                              chunk_choices =
                                [\<lparr>choice_index = 0,
                                  choice_delta = \<lparr>delta_role = None, delta_content = Some text\<rparr>,
                                  choice_finish_reason = None\<rparr>]\<rparr>)
                    (filter (\<lambda>text. text \<noteq> '''') (decoded_fragments events))
              @ [Data \<lparr>chunk_id = response_id, chunk_object = ''chat.completion.chunk'',
                        chunk_created = created_time, chunk_model = model,
                        chunk_choices =
                          [\<lparr>choice_index = 0,
                            choice_delta = \<lparr>delta_role = None, delta_content = None\<rparr>,
                            choice_finish_reason = Some ''stop''\<rparr>]\<rparr>,
                 Done],
            None)"
      unfolding eq by (simp add: role_chunk_def content_chunk_def final_chunk_def)
  next
    show "length (filter (\<lambda>f. Some ''stop'' \<in> set (finish_reasons f))
                   (fst (generate_stream response_id created_time model events))) = 1"
      unfolding eq by (simp add: n1) (simp add: finish_reasons_def role_chunk_def final_chunk_def)
  next
    show "length (filter (\<lambda>f. f = Done)
                   (fst (generate_stream response_id created_time model events))) = 1"
      unfolding eq by (simp add: n2)
  qed
qed

text \<open>
  The theorem at the fragments \<^verbatim>\<open>"Hel"\<close>, an event without chunk, \<^verbatim>\<open>""\<close> and \<^verbatim>\<open>"lo"\<close>,
  and at no event at all.
\<close>

theorem generate_stream_frames_witness:
  "decode_utf8 ''Hel'' \<noteq> Inl UnicodeDecodeError
   \<and> decode_utf8 '''' \<noteq> Inl UnicodeDecodeError
   \<and> decode_utf8 ''lo'' \<noteq> Inl UnicodeDecodeError
   \<and> generate_stream ''chatcmpl-m-00000000'' 0 ''m'' [Chunk ''Hel'', OtherEvent, Chunk '''', Chunk ''lo'']
       = ([Data \<lparr>chunk_id = ''chatcmpl-m-00000000'', chunk_object = ''chat.completion.chunk'',
                  chunk_created = 0, chunk_model = ''m'',
                  chunk_choices =
                    [\<lparr>choice_index = 0,
                      choice_delta = \<lparr>delta_role = Some ''assistant'', delta_content = None\<rparr>,
                      choice_finish_reason = None\<rparr>]\<rparr>,
           Data \<lparr>chunk_id = ''chatcmpl-m-00000000'', chunk_object = ''chat.completion.chunk'',
                  chunk_created = 0, chunk_model = ''m'',
                  chunk_choices =
                    [\<lparr>choice_index = 0,
                      choice_delta = \<lparr>delta_role = None, delta_content = Some ''Hel''\<rparr>,
                      choice_finish_reason = None\<rparr>]\<rparr>,
           Data \<lparr>chunk_id = ''chatcmpl-m-00000000'', chunk_object = ''chat.completion.chunk'',
                  chunk_created = 0, chunk_model = ''m'',
                  chunk_choices =
                    [\<lparr>choice_index = 0,
                      choice_delta = \<lparr>delta_role = None, delta_content = Some ''lo''\<rparr>,
                      choice_finish_reason = None\<rparr>]\<rparr>,
           Data \<lparr>chunk_id = ''chatcmpl-m-00000000'', chunk_object = ''chat.completion.chunk'',
                  chunk_created = 0, chunk_model = ''m'',
                  chunk_choices =
                    [\<lparr>choice_index = 0,
                      choice_delta = \<lparr>delta_role = None, delta_content = None\<rparr>,
                      choice_finish_reason = Some ''stop''\<rparr>]\<rparr>,
           Done], None)
   \<and> generate_stream ''chatcmpl-m-00000000'' 0 ''m'' []
       = ([Data \<lparr>chunk_id = ''chatcmpl-m-00000000'', chunk_object = ''chat.completion.chunk'',
                  chunk_created = 0, chunk_model = ''m'',
                  chunk_choices =
                    [\<lparr>choice_index = 0,
                      choice_delta = \<lparr>delta_role = Some ''assistant'', delta_content = None\<rparr>,
                      choice_finish_reason = None\<rparr>]\<rparr>,
           Data \<lparr>chunk_id = ''chatcmpl-m-00000000'', chunk_object = ''chat.completion.chunk'',
                  chunk_created = 0, chunk_model = ''m'',
                  chunk_choices =
                    [\<lparr>choice_index = 0,
                      choice_delta = \<lparr>delta_role = None, delta_content = None\<rparr>,
                      choice_finish_reason = Some ''stop''\<rparr>]\<rparr>,
           Done], None)"
proof -
  have d: "decode_utf8 ''Hel'' = Inr ''Hel''" "decode_utf8 '''' = Inr ''''"
          "decode_utf8 ''lo'' = Inr ''lo''"
    by (simp_all add: decode_utf8_def)
  have h: "\<forall>bytes. Chunk bytes \<in> set [Chunk ''Hel'', OtherEvent, Chunk '''', Chunk ''lo'']
             \<longrightarrow> decode_utf8 bytes \<noteq> Inl UnicodeDecodeError"
    using d by auto
  have h0: "\<forall>bytes. Chunk bytes \<in> set [] \<longrightarrow> decode_utf8 bytes \<noteq> Inl UnicodeDecodeError"
    by simp
  show ?thesis
    using generate_stream_frames[OF h, of "''chatcmpl-m-00000000''" 0 "''m''"]
          generate_stream_frames[OF h0, of "''chatcmpl-m-00000000''" 0 "''m''"] d
    by simp
qed

lemma frame_contents_simps:
  "frame_contents [] = []"
  "frame_contents (Done # fs) = frame_contents fs"
  "frame_contents (Data (content_chunk rid ct m text) # fs) = text # frame_contents fs"
  "frame_contents (Data (final_chunk rid ct m) # fs) = frame_contents fs"
  "frame_contents (Data (role_chunk rid ct m) # fs) = frame_contents fs"
  "frame_contents (fs @ gs) = frame_contents fs @ frame_contents gs"
  by (simp_all add: frame_contents_def content_chunk_def final_chunk_def role_chunk_def)

text \<open>
  The aggregated mode, started from any text, against the loop of the streaming mode: it
  raises what the stream raises, and otherwise adds the contents of the frames.
\<close>

lemma collect_completion_stream_events:
  "collect_completion acc events =
     (case stream_events rid ct m events of
        (frames, None) \<Rightarrow> Inr (acc @ concat (frame_contents frames))
      | (frames, Some e) \<Rightarrow> Inl e)"
proof (induction events arbitrary: acc)
  case Nil
  show ?case by (simp add: frame_contents_simps)
next
  case (Cons e events)
  show ?case
  proof (cases e)
    case (Chunk bytes)
    show ?thesis
      using Cons[of "acc @ bytes"] Chunk
      by (auto simp: decode_utf8_def frame_contents_simps split: prod.splits option.splits)
  next
    case OtherEvent
    with Cons show ?thesis by simp
  qed
qed

text \<open>
  C3. When the aggregated mode returns a completion for a sequence of events, the
  streaming mode ends without an exception for the same sequence and the concatenation
  of the content fields of its frames is that completion, which is the content of the
  assistant message of the aggregated answer. When the aggregated mode raises, the
  stream ends with the same exception.
\<close>

theorem stream_contents_eq_aggregate:
  "(\<forall>completion. collect_completion '''' events = Inr completion \<longrightarrow>
      (\<exists>frames. generate_stream response_id created_time model events = (frames, None)
         \<and> concat (frame_contents frames) = completion
         \<and> concat (frame_contents frames) =
             message_content (completion_message (hd (completion_choices
               (openai_response response_id created_time model completion))))))
   \<and> (\<forall>e. collect_completion '''' events = Inl e \<longrightarrow>
         snd (generate_stream response_id created_time model events) = Some e)"
  using collect_completion_stream_events[of "''''" events response_id created_time model]
  by (auto simp: generate_stream_def frame_contents_simps openai_response_def
           split: prod.splits option.splits)

text \<open>
  The theorem at the fragments \<^verbatim>\<open>"Hel"\<close>, \<^verbatim>\<open>""\<close> and \<^verbatim>\<open>"lo"\<close>, and at a sequence whose
  second chunk is a lone lead byte.
\<close>

theorem stream_contents_eq_aggregate_witness:
  "collect_completion '''' [Chunk ''Hel'', OtherEvent, Chunk '''', Chunk ''lo''] = Inr ''Hello''
   \<and> snd (generate_stream ''r'' 0 ''m'' [Chunk ''Hel'', OtherEvent, Chunk '''', Chunk ''lo'']) = None
   \<and> concat (frame_contents
        (fst (generate_stream ''r'' 0 ''m'' [Chunk ''Hel'', OtherEvent, Chunk '''', Chunk ''lo''])))
       = ''Hello''
   \<and> collect_completion '''' [Chunk ''Hel'', Chunk [CHR 0xC3]] = Inl UnicodeDecodeError
   \<and> snd (generate_stream ''r'' 0 ''m'' [Chunk ''Hel'', Chunk [CHR 0xC3]]) = Some UnicodeDecodeError"
proof -
  have a: "collect_completion '''' [Chunk ''Hel'', OtherEvent, Chunk '''', Chunk ''lo''] = Inr ''Hello''"
    by (simp add: decode_utf8_def)
  have b: "collect_completion '''' [Chunk ''Hel'', Chunk [CHR 0xC3]] = Inl UnicodeDecodeError"
    by (simp add: decode_utf8_def)
  show ?thesis
    using a b
      stream_contents_eq_aggregate[of "[Chunk ''Hel'', OtherEvent, Chunk '''', Chunk ''lo'']" "''r''" 0 "''m''"]
      stream_contents_eq_aggregate[of "[Chunk ''Hel'', Chunk [CHR 0xC3]]" "''r''" 0 "''m''"]
    by auto
qed

lemma stream_events_fields:
  "Data c \<in> set (fst (stream_events rid ct m events)) \<Longrightarrow>
     chunk_id c = rid \<and> chunk_created c = ct \<and> chunk_model c = m"
proof (induction events)
  case Nil
  then show ?case by (auto simp: final_chunk_def)
next
  case (Cons e events)
  then show ?case
    by (cases e) (auto simp: content_chunk_def split: sum.splits prod.splits if_splits)
qed

lemma generate_stream_fields:
  "Data c \<in> set (fst (generate_stream rid ct m events)) \<Longrightarrow>
     chunk_id c = rid \<and> chunk_created c = ct \<and> chunk_model c = m"
  using stream_events_fields[of c rid ct m events]
  by (auto simp: generate_stream_def role_chunk_def split: prod.splits)

lemma chat_completions_stream_source:
  assumes "chat_completions cfg invoke_agent sys request = Inr (StreamResponse mimetype headers out)"
  shows "\<exists>events. out = generate_stream
           (''chatcmpl-'' @ (case json_model request of None \<Rightarrow> DEFAULT_AGENT cfg | Some m \<Rightarrow> m)
              @ ''-'' @ hex (urandom_response sys))
           (time_now sys)
           (case json_model request of None \<Rightarrow> DEFAULT_AGENT cfg | Some m \<Rightarrow> m) events"
  using assms
  by (auto simp: chat_completions_def Let_def split: sum.splits if_splits)

text \<open>
  C7. Every frame of the streaming answer of one request, whether the stream ends well
  or with an exception, has the same \<^verbatim>\<open>id\<close>, \<^verbatim>\<open>created\<close> and \<^verbatim>\<open>model\<close>: the identifier
  made of the model and of the one reading of \<^verbatim>\<open>os.urandom\<close> for the answer, the one
  reading of the clock, and the model of the request. None of them depends on the events
  of the backend.
\<close>

theorem stream_frames_share_fields:
  assumes "chat_completions cfg invoke_agent sys request
             = Inr (StreamResponse mimetype headers (frames, raised))"
      and "Data c \<in> set frames"
  shows "chunk_id c = ''chatcmpl-''
            @ (case json_model request of None \<Rightarrow> DEFAULT_AGENT cfg | Some m \<Rightarrow> m)
            @ ''-'' @ hex (urandom_response sys)
       \<and> chunk_created c = time_now sys
       \<and> chunk_model c = (case json_model request of None \<Rightarrow> DEFAULT_AGENT cfg | Some m \<Rightarrow> m)"
proof -
  let ?model = "case json_model request of None \<Rightarrow> DEFAULT_AGENT cfg | Some m \<Rightarrow> m"
  let ?rid = "''chatcmpl-'' @ ?model @ ''-'' @ hex (urandom_response sys)"
  from chat_completions_stream_source[OF assms(1)]
  obtain events where "(frames, raised) = generate_stream ?rid (time_now sys) ?model events"
    by blast
  then have "Data c \<in> set (fst (generate_stream ?rid (time_now sys) ?model events))"
    using assms(2) by (metis fst_conv)
  then show ?thesis by (rule generate_stream_fields)
qed

lemma hex_example:
  "hex [CHR 0x0a, CHR 0x0b, CHR 0x0c, CHR 0x0d] = ''0a0b0c0d''"
  "hex [CHR 0x01, CHR 0x02, CHR 0x03, CHR 0x04] = ''01020304''"
  by (simp_all add: hex_def hex_digit_def)

lemma example_stream:
  "chat_completions example_config (\<lambda>r. Inr [Chunk ''Hi'']) example_reads
     \<lparr>authorization = None,
      json_messages = Some [\<lparr>role = ''user'', content = ''Hello''\<rparr>],
      json_model = None, json_stream = Some True, json_session_id = None\<rparr>
   = Inr (StreamResponse ''text/event-stream''
            [(''Cache-Control'', ''no-cache''), (''Connection'', ''keep-alive''),
             (''X-Accel-Buffering'', ''no''), (''Transfer-Encoding'', ''chunked'')]
            ([Data (role_chunk ''chatcmpl-MY-BOT-0a0b0c0d'' 1700000000 ''MY-BOT''),
              Data (content_chunk ''chatcmpl-MY-BOT-0a0b0c0d'' 1700000000 ''MY-BOT'' ''Hi''),
              Data (final_chunk ''chatcmpl-MY-BOT-0a0b0c0d'' 1700000000 ''MY-BOT''),
              Done], None))"
  by (simp add: chat_completions_def build_agent_request_def example_config_def example_reads_def
        resolve_agent_def input_text_def collapse_def find_anchor_def full_input_def
        prepare_context_def hex_example generate_stream_def decode_utf8_def Let_def)

text \<open>The theorem at a streaming request whose backend sends the one fragment \<^verbatim>\<open>"Hi"\<close>.\<close>

theorem stream_frames_share_fields_witness:
  "chat_completions example_config (\<lambda>r. Inr [Chunk ''Hi'']) example_reads
     \<lparr>authorization = None,
      json_messages = Some [\<lparr>role = ''user'', content = ''Hello''\<rparr>],
      json_model = None, json_stream = Some True, json_session_id = None\<rparr>
   = Inr (StreamResponse ''text/event-stream''
            [(''Cache-Control'', ''no-cache''), (''Connection'', ''keep-alive''),
             (''X-Accel-Buffering'', ''no''), (''Transfer-Encoding'', ''chunked'')]
            ([Data (role_chunk ''chatcmpl-MY-BOT-0a0b0c0d'' 1700000000 ''MY-BOT''),
              Data (content_chunk ''chatcmpl-MY-BOT-0a0b0c0d'' 1700000000 ''MY-BOT'' ''Hi''),
              Data (final_chunk ''chatcmpl-MY-BOT-0a0b0c0d'' 1700000000 ''MY-BOT''),
              Done], None))
   \<and> chunk_id (content_chunk ''chatcmpl-MY-BOT-0a0b0c0d'' 1700000000 ''MY-BOT'' ''Hi'')
        = ''chatcmpl-MY-BOT-0a0b0c0d''
   \<and> chunk_created (content_chunk ''chatcmpl-MY-BOT-0a0b0c0d'' 1700000000 ''MY-BOT'' ''Hi'')
        = 1700000000
   \<and> chunk_model (content_chunk ''chatcmpl-MY-BOT-0a0b0c0d'' 1700000000 ''MY-BOT'' ''Hi'')
        = ''MY-BOT''"
proof -
  have m: "Data (content_chunk ''chatcmpl-MY-BOT-0a0b0c0d'' 1700000000 ''MY-BOT'' ''Hi'')
      \<in> set [Data (role_chunk ''chatcmpl-MY-BOT-0a0b0c0d'' 1700000000 ''MY-BOT''),
              Data (content_chunk ''chatcmpl-MY-BOT-0a0b0c0d'' 1700000000 ''MY-BOT'' ''Hi''),
              Data (final_chunk ''chatcmpl-MY-BOT-0a0b0c0d'' 1700000000 ''MY-BOT''),
              Done]"
    by simp
  show ?thesis
    using stream_frames_share_fields[OF example_stream m] example_stream
    by (simp add: example_config_def example_reads_def hex_example)
qed

section \<open>The agent registry\<close>

text \<open>
  C6. A model identifier that is not in the registry resolves as the default identifier
  does: to the agent of the default when the default is registered, and otherwise to the
  \<^verbatim>\<open>TypeError\<close> of line 117, which is the result of the handler for a request that names
  the model. The registry is not changed: every registered identifier still resolves to
  its own agent.
\<close>

theorem resolve_unregistered:
  assumes "map_of (AGENTS cfg) model = None"
  shows "resolve_agent cfg model = resolve_agent cfg (DEFAULT_AGENT cfg)
       \<and> (\<forall>agent. map_of (AGENTS cfg) (DEFAULT_AGENT cfg) = Some agent \<longrightarrow>
             resolve_agent cfg model = Inr agent)
       \<and> (map_of (AGENTS cfg) (DEFAULT_AGENT cfg) = None \<longrightarrow>
             resolve_agent cfg model = Inl TypeError
           \<and> (json_model request = Some model \<longrightarrow>
                chat_completions cfg invoke_agent sys request = Inl TypeError)
           \<and> (\<forall>other agent. map_of (AGENTS cfg) other = Some agent \<longrightarrow>
                resolve_agent cfg other = Inr agent))"
  using assms
  by (auto simp: resolve_agent_def chat_completions_def build_agent_request_def Let_def
           split: option.splits)

text \<open>
  The theorem at the identifier \<^verbatim>\<open>unknown-model\<close>: with the default \<^verbatim>\<open>MY-BOT\<close>
  registered, and with a default that is not registered.
\<close>

theorem resolve_unregistered_witness:
  "map_of (AGENTS example_config) ''unknown-model'' = None
   \<and> map_of (AGENTS example_config) (DEFAULT_AGENT example_config)
       = Some \<lparr>agent_id = ''A1'', alias_id = ''L1''\<rparr>
   \<and> resolve_agent example_config ''unknown-model'' = Inr \<lparr>agent_id = ''A1'', alias_id = ''L1''\<rparr>
   \<and> resolve_agent example_config (DEFAULT_AGENT example_config)
       = Inr \<lparr>agent_id = ''A1'', alias_id = ''L1''\<rparr>
   \<and> map_of (AGENTS (example_config\<lparr>DEFAULT_AGENT := ''DEFAULT''\<rparr>)) ''unknown-model'' = None
   \<and> map_of (AGENTS (example_config\<lparr>DEFAULT_AGENT := ''DEFAULT''\<rparr>)) ''DEFAULT'' = None
   \<and> resolve_agent (example_config\<lparr>DEFAULT_AGENT := ''DEFAULT''\<rparr>) ''unknown-model''
       = Inl TypeError
   \<and> chat_completions (example_config\<lparr>DEFAULT_AGENT := ''DEFAULT''\<rparr>) (\<lambda>r. Inr [])
        example_reads ((request_with_header None)\<lparr>json_model := Some ''unknown-model''\<rparr>)
       = Inl TypeError
   \<and> resolve_agent (example_config\<lparr>DEFAULT_AGENT := ''DEFAULT''\<rparr>) ''MY-BOT''
       = Inr \<lparr>agent_id = ''A1'', alias_id = ''L1''\<rparr>"
proof -
  have a: "map_of (AGENTS example_config) ''unknown-model'' = None"
    by (simp add: example_config_def)
  have b: "map_of (AGENTS (example_config\<lparr>DEFAULT_AGENT := ''DEFAULT''\<rparr>)) ''unknown-model'' = None"
    by (simp add: example_config_def)
  show ?thesis
    using resolve_unregistered[OF a, of "request_with_header None" "\<lambda>r. Inr []" example_reads]
          resolve_unregistered[OF b,
            of "(request_with_header None)\<lparr>json_model := Some ''unknown-model''\<rparr>"
               "\<lambda>r. Inr []" example_reads]
    by (auto simp: example_config_def resolve_agent_def)
qed













section \<open>The API key\<close>

lemma validate_api_key_skip:
  "API_KEY cfg = '''' \<or> py_lower (API_KEY cfg) = ''none'' \<Longrightarrow> validate_api_key cfg request"
  by (auto simp: validate_api_key_def)

text \<open>
  When the check is made, the request passes exactly when the header splits into a scheme
  that is \<^verbatim>\<open>bearer\<close> in any letter case and the configured key.
\<close>

lemma validate_api_key_checked:
  assumes "API_KEY cfg \<noteq> ''''" and "py_lower (API_KEY cfg) \<noteq> ''none''"
  shows "validate_api_key cfg request \<longleftrightarrow>
           (\<exists>header scheme. authorization request = Some header
              \<and> py_split header = [scheme, API_KEY cfg] \<and> py_lower scheme = ''bearer'')"
proof (cases "authorization request")
  case None
  with assms show ?thesis by (simp add: validate_api_key_def)
next
  case (Some header)
  have e: "py_split '''' = []" by (simp add: py_split_def)
  show ?thesis
  proof (cases "length (py_split header) = 2")
    case True
    then obtain scheme key where p: "py_split header = [scheme, key]"
      by (auto simp: length_Suc_conv numeral_2_eq_2)
    with assms Some e show ?thesis
      by (auto simp: validate_api_key_def Let_def)
  next
    case False
    with assms Some show ?thesis
      by (auto simp: validate_api_key_def Let_def)
  qed
qed

text \<open>
  C9, as the code has it. The check is skipped, for every request, exactly when the
  configured key is the empty string or is \<^verbatim>\<open>none\<close> in any letter case. When the variable
  \<^verbatim>\<open>API_KEY\<close> is not set the key is \<^verbatim>\<open>bedrock-agent-proxy-key\<close> and a request without
  header is refused. When the check is made, a request with no header, with a header that
  does not split into two parts, with a scheme other than \<^verbatim>\<open>bearer\<close>, or with another key
  gets the structured error body and the status 401; a request with the scheme and the
  key gets the list of the registered models and the status 200.
\<close>

theorem list_models_auth:
  "(API_KEY cfg = '''' \<or> py_lower (API_KEY cfg) = ''none'' \<longrightarrow>
      validate_api_key cfg request
      \<and> list_models cfg request =
          (ModelsList ''list''
             (map (\<lambda>(name, agent_config).
                     \<lparr>entry_id = name, entry_object = ''model'',
                      entry_created = 1677610602, entry_owned_by = ''aws-bedrock''\<rparr>)
                  (AGENTS cfg)), 200))
   \<and> ((\<forall>r. validate_api_key cfg r) \<longleftrightarrow>
        API_KEY cfg = '''' \<or> py_lower (API_KEY cfg) = ''none'')
   \<and> (map_of env ''API_KEY'' = None \<longrightarrow>
        API_KEY (load_config env) = ''bedrock-agent-proxy-key''
        \<and> \<not> validate_api_key (load_config env) (request\<lparr>authorization := None\<rparr>))
   \<and> (API_KEY cfg \<noteq> '''' \<and> py_lower (API_KEY cfg) \<noteq> ''none''
        \<and> (authorization request = None
            \<or> (\<exists>header. authorization request = Some header
                  \<and> (length (py_split header) \<noteq> 2
                      \<or> (\<exists>scheme key. py_split header = [scheme, key]
                            \<and> (py_lower scheme \<noteq> ''bearer'' \<or> key \<noteq> API_KEY cfg))))) \<longrightarrow>
        list_models cfg request =
          (ErrorBody \<lparr>err_message = ''Invalid API key'', err_type = ''invalid_request_error'',
                      err_param = None, err_code = ''invalid_api_key''\<rparr>, 401))
   \<and> (API_KEY cfg \<noteq> '''' \<and> py_lower (API_KEY cfg) \<noteq> ''none''
        \<and> (\<exists>header scheme. authorization request = Some header
              \<and> py_split header = [scheme, API_KEY cfg] \<and> py_lower scheme = ''bearer'') \<longrightarrow>
        list_models cfg request =
          (ModelsList ''list''
             (map (\<lambda>(name, agent_config).
                     \<lparr>entry_id = name, entry_object = ''model'',
                      entry_created = 1677610602, entry_owned_by = ''aws-bedrock''\<rparr>)
                  (AGENTS cfg)), 200))"
proof (intro conjI)
  show "API_KEY cfg = '''' \<or> py_lower (API_KEY cfg) = ''none'' \<longrightarrow>
      validate_api_key cfg request
      \<and> list_models cfg request =
          (ModelsList ''list''
             (map (\<lambda>(name, agent_config).
                     \<lparr>entry_id = name, entry_object = ''model'',
                      entry_created = 1677610602, entry_owned_by = ''aws-bedrock''\<rparr>)
                  (AGENTS cfg)), 200)"
    using validate_api_key_skip[of cfg request] by (auto simp: list_models_def)
next
  show "(\<forall>r. validate_api_key cfg r) \<longleftrightarrow>
        API_KEY cfg = '''' \<or> py_lower (API_KEY cfg) = ''none''"
  proof
    assume a: "\<forall>r. validate_api_key cfg r"
    show "API_KEY cfg = '''' \<or> py_lower (API_KEY cfg) = ''none''"
    proof (rule ccontr)
      assume "\<not> (API_KEY cfg = '''' \<or> py_lower (API_KEY cfg) = ''none'')"
      then have "\<not> validate_api_key cfg (request\<lparr>authorization := None\<rparr>)"
        by (simp add: validate_api_key_checked)
      with a show False by blast
    qed
  next
    assume "API_KEY cfg = '''' \<or> py_lower (API_KEY cfg) = ''none''"
    then show "\<forall>r. validate_api_key cfg r"
      using validate_api_key_skip by blast
  qed
next
  have k: "py_lower ''bedrock-agent-proxy-key'' \<noteq> ''none''"
    by (simp add: py_lower_def)
  show "map_of env ''API_KEY'' = None \<longrightarrow>
        API_KEY (load_config env) = ''bedrock-agent-proxy-key''
        \<and> \<not> validate_api_key (load_config env) (request\<lparr>authorization := None\<rparr>)"
  proof
    assume "map_of env ''API_KEY'' = None"
    then have "API_KEY (load_config env) = ''bedrock-agent-proxy-key''"
      by (simp add: load_config_def environ_get_def)
    then show "API_KEY (load_config env) = ''bedrock-agent-proxy-key''
        \<and> \<not> validate_api_key (load_config env) (request\<lparr>authorization := None\<rparr>)"
      using k by (simp add: validate_api_key_checked)
  qed
next
  show "API_KEY cfg \<noteq> '''' \<and> py_lower (API_KEY cfg) \<noteq> ''none''
        \<and> (authorization request = None
            \<or> (\<exists>header. authorization request = Some header
                  \<and> (length (py_split header) \<noteq> 2
                      \<or> (\<exists>scheme key. py_split header = [scheme, key]
                            \<and> (py_lower scheme \<noteq> ''bearer'' \<or> key \<noteq> API_KEY cfg))))) \<longrightarrow>
        list_models cfg request =
          (ErrorBody \<lparr>err_message = ''Invalid API key'', err_type = ''invalid_request_error'',
                      err_param = None, err_code = ''invalid_api_key''\<rparr>, 401)"
  proof
    assume a: "API_KEY cfg \<noteq> '''' \<and> py_lower (API_KEY cfg) \<noteq> ''none''
        \<and> (authorization request = None
            \<or> (\<exists>header. authorization request = Some header
                  \<and> (length (py_split header) \<noteq> 2
                      \<or> (\<exists>scheme key. py_split header = [scheme, key]
                            \<and> (py_lower scheme \<noteq> ''bearer'' \<or> key \<noteq> API_KEY cfg)))))"
    then have "\<not> validate_api_key cfg request"
      by (auto simp: validate_api_key_checked)
    then show "list_models cfg request =
          (ErrorBody \<lparr>err_message = ''Invalid API key'', err_type = ''invalid_request_error'',
                      err_param = None, err_code = ''invalid_api_key''\<rparr>, 401)"
      by (simp add: list_models_def)
  qed
next
  show "API_KEY cfg \<noteq> '''' \<and> py_lower (API_KEY cfg) \<noteq> ''none''
        \<and> (\<exists>header scheme. authorization request = Some header
              \<and> py_split header = [scheme, API_KEY cfg] \<and> py_lower scheme = ''bearer'') \<longrightarrow>
        list_models cfg request =
          (ModelsList ''list''
             (map (\<lambda>(name, agent_config).
                     \<lparr>entry_id = name, entry_object = ''model'',
                      entry_created = 1677610602, entry_owned_by = ''aws-bedrock''\<rparr>)
                  (AGENTS cfg)), 200)"
    by (auto simp: validate_api_key_checked list_models_def)
qed

lemma example_headers:
  "py_split ''Bearer bedrock-agent-proxy-key'' = [''Bearer'', ''bedrock-agent-proxy-key'']"
  "py_split ''Basic bedrock-agent-proxy-key'' = [''Basic'', ''bedrock-agent-proxy-key'']"
  "py_split ''Bearer wrong'' = [''Bearer'', ''wrong'']"
  "py_split ''Bearer'' = [''Bearer'']"
  "py_lower ''Bearer'' = ''bearer''"
  "py_lower ''Basic'' = ''basic''"
  "py_lower ''bedrock-agent-proxy-key'' = ''bedrock-agent-proxy-key''"
  "py_lower ''NONE'' = ''none''"
  by code_simp+

text \<open>
  The theorem at the key \<^verbatim>\<open>NONE\<close>, at an environment without \<^verbatim>\<open>API_KEY\<close>, and at the
  default key with no header, a header of one part, the scheme \<^verbatim>\<open>Basic\<close>, a wrong key and
  the right key.
\<close>

theorem list_models_auth_witness:
  "py_lower (API_KEY (example_config\<lparr>API_KEY := ''NONE''\<rparr>)) = ''none''
   \<and> list_models (example_config\<lparr>API_KEY := ''NONE''\<rparr>) (request_with_header None)
       = (ModelsList ''list''
            [\<lparr>entry_id = ''MY-BOT'', entry_object = ''model'',
              entry_created = 1677610602, entry_owned_by = ''aws-bedrock''\<rparr>], 200)
   \<and> map_of example_environ ''API_KEY'' = None
   \<and> API_KEY (load_config example_environ) = ''bedrock-agent-proxy-key''
   \<and> list_models example_config (request_with_header None)
       = (ErrorBody \<lparr>err_message = ''Invalid API key'', err_type = ''invalid_request_error'',
                     err_param = None, err_code = ''invalid_api_key''\<rparr>, 401)
   \<and> list_models example_config (request_with_header (Some ''Bearer''))
       = (ErrorBody \<lparr>err_message = ''Invalid API key'', err_type = ''invalid_request_error'',
                     err_param = None, err_code = ''invalid_api_key''\<rparr>, 401)
   \<and> list_models example_config (request_with_header (Some ''Basic bedrock-agent-proxy-key''))
       = (ErrorBody \<lparr>err_message = ''Invalid API key'', err_type = ''invalid_request_error'',
                     err_param = None, err_code = ''invalid_api_key''\<rparr>, 401)
   \<and> list_models example_config (request_with_header (Some ''Bearer wrong''))
       = (ErrorBody \<lparr>err_message = ''Invalid API key'', err_type = ''invalid_request_error'',
                     err_param = None, err_code = ''invalid_api_key''\<rparr>, 401)
   \<and> list_models example_config (request_with_header (Some ''Bearer bedrock-agent-proxy-key''))
       = (ModelsList ''list''
            [\<lparr>entry_id = ''MY-BOT'', entry_object = ''model'',
              entry_created = 1677610602, entry_owned_by = ''aws-bedrock''\<rparr>], 200)"
  using list_models_auth[of "example_config\<lparr>API_KEY := ''NONE''\<rparr>" "request_with_header None"
          example_environ]
        list_models_auth[of example_config "request_with_header None" example_environ]
        list_models_auth[of example_config "request_with_header (Some ''Bearer'')" example_environ]
        list_models_auth[of example_config
          "request_with_header (Some ''Basic bedrock-agent-proxy-key'')" example_environ]
        list_models_auth[of example_config "request_with_header (Some ''Bearer wrong'')"
          example_environ]
        list_models_auth[of example_config
          "request_with_header (Some ''Bearer bedrock-agent-proxy-key'')" example_environ]
        example_headers
  by (simp add: example_config_def example_environ_def request_with_header_def)

text \<open>
  C9 as the specification states it is false: with no \<^verbatim>\<open>API_KEY\<close> in the environment the
  check is not skipped, and a request without header is refused with the status 401.
\<close>

theorem list_models_unset_key_counterexample:
  "list_models (load_config []) (request_with_header None)
     = (ErrorBody \<lparr>err_message = ''Invalid API key'', err_type = ''invalid_request_error'',
                   err_param = None, err_code = ''invalid_api_key''\<rparr>, 401)"
  by (simp add: list_models_def validate_api_key_def load_config_def environ_get_def
        request_with_header_def py_lower_def)

section \<open>The handler of the chat completions\<close>

text \<open>
  C10. The handler reads neither the \<^verbatim>\<open>Authorization\<close> header nor the configured key:
  a request with any other header, under any other key, gives the same request to the
  backend and the same answer. A request without header, under a key that is checked,
  fails \<^verbatim>\<open>validate_api_key\<close>, and still the backend is called with the request built
  from it: the answer of the handler is made of the events the backend returns, as a
  stream or as the aggregated completion, and an exception of the backend is the
  exception of the handler.
\<close>

theorem chat_completions_ignores_authorization:
  "build_agent_request (cfg\<lparr>API_KEY := key\<rparr>) sys (request\<lparr>authorization := header\<rparr>)
     = build_agent_request cfg sys request
   \<and> chat_completions (cfg\<lparr>API_KEY := key\<rparr>) invoke_agent sys (request\<lparr>authorization := header\<rparr>)
     = chat_completions cfg invoke_agent sys request
   \<and> (API_KEY cfg \<noteq> '''' \<and> py_lower (API_KEY cfg) \<noteq> ''none''
        \<and> authorization request = None
        \<and> build_agent_request cfg sys request = Inr agent_request
        \<and> invoke_agent agent_request = Inr events \<longrightarrow>
          \<not> validate_api_key cfg request
        \<and> chat_completions cfg invoke_agent sys request =
            (let model = (case json_model request of None \<Rightarrow> DEFAULT_AGENT cfg | Some m \<Rightarrow> m);
                 response_id = ''chatcmpl-'' @ model @ ''-'' @ hex (urandom_response sys)
             in if json_stream request = Some True then
                  Inr (StreamResponse ''text/event-stream''
                         [(''Cache-Control'', ''no-cache''),
                          (''Connection'', ''keep-alive''),
                          (''X-Accel-Buffering'', ''no''),
                          (''Transfer-Encoding'', ''chunked'')]
                         (generate_stream response_id (time_now sys) model events))
                else
                  (case collect_completion '''' events of
                     Inl e \<Rightarrow> Inl e
                   | Inr completion \<Rightarrow>
                       Inr (JsonResponse
                              (openai_response response_id (time_now sys) model completion)))))
   \<and> (build_agent_request cfg sys request = Inr agent_request
        \<and> invoke_agent agent_request = Inl e \<longrightarrow>
          chat_completions cfg invoke_agent sys request = Inl e)"
proof (intro conjI impI)
  show "build_agent_request (cfg\<lparr>API_KEY := key\<rparr>) sys (request\<lparr>authorization := header\<rparr>)
     = build_agent_request cfg sys request"
    by (simp add: build_agent_request_def resolve_agent_def Let_def
           cong del: option.case_cong_weak sum.case_cong_weak)
next
  show "chat_completions (cfg\<lparr>API_KEY := key\<rparr>) invoke_agent sys (request\<lparr>authorization := header\<rparr>)
     = chat_completions cfg invoke_agent sys request"
    by (simp add: chat_completions_def build_agent_request_def resolve_agent_def Let_def
           cong del: option.case_cong_weak sum.case_cong_weak)
next
  assume a: "API_KEY cfg \<noteq> '''' \<and> py_lower (API_KEY cfg) \<noteq> ''none''
        \<and> authorization request = None
        \<and> build_agent_request cfg sys request = Inr agent_request
        \<and> invoke_agent agent_request = Inr events"
  then show "\<not> validate_api_key cfg request"
    by (simp add: validate_api_key_def)
  from a show "chat_completions cfg invoke_agent sys request =
            (let model = (case json_model request of None \<Rightarrow> DEFAULT_AGENT cfg | Some m \<Rightarrow> m);
                 response_id = ''chatcmpl-'' @ model @ ''-'' @ hex (urandom_response sys)
             in if json_stream request = Some True then
                  Inr (StreamResponse ''text/event-stream''
                         [(''Cache-Control'', ''no-cache''),
                          (''Connection'', ''keep-alive''),
                          (''X-Accel-Buffering'', ''no''),
                          (''Transfer-Encoding'', ''chunked'')]
                         (generate_stream response_id (time_now sys) model events))
                else
                  (case collect_completion '''' events of
                     Inl e \<Rightarrow> Inl e
                   | Inr completion \<Rightarrow>
                       Inr (JsonResponse
                              (openai_response response_id (time_now sys) model completion))))"
    by (auto simp: chat_completions_def Let_def split: option.splits)
next
  assume "build_agent_request cfg sys request = Inr agent_request
        \<and> invoke_agent agent_request = Inl e"
  then show "chat_completions cfg invoke_agent sys request = Inl e"
    by (simp add: chat_completions_def Let_def)
qed

lemma example_unauthenticated:
  "build_agent_request example_config example_reads
     ((request_with_header None)\<lparr>json_messages := Some [\<lparr>role = ''user'', content = ''Hello''\<rparr>]\<rparr>)
   = Inr \<lparr>agentId = ''A1'', agentAliasId = ''L1'', sessionId = ''session-MY-BOT-01020304'',
          inputText = ''Hello'', enableTrace = False\<rparr>"
  "echo_agent \<lparr>agentId = ''A1'', agentAliasId = ''L1'', sessionId = ''session-MY-BOT-01020304'',
          inputText = ''Hello'', enableTrace = False\<rparr> = Inr [Chunk ''Hello'']"
  "API_KEY example_config \<noteq> ''''" "py_lower (API_KEY example_config) \<noteq> ''none''"
  "authorization ((request_with_header None)\<lparr>json_messages := Some [\<lparr>role = ''user'', content = ''Hello''\<rparr>]\<rparr>) = None"
  by (simp_all add: build_agent_request_def example_config_def example_reads_def
        request_with_header_def resolve_agent_def input_text_def collapse_def find_anchor_def
        full_input_def prepare_context_def hex_example echo_agent_def py_lower_def)

text \<open>
  The theorem at a request without header, under the default key, sent to the echoing
  backend: the key check fails and the answer carries the text the backend was given.
\<close>

theorem chat_completions_ignores_authorization_witness:
  "API_KEY example_config \<noteq> '''' \<and> py_lower (API_KEY example_config) \<noteq> ''none''
   \<and> \<not> validate_api_key example_config
        ((request_with_header None)\<lparr>json_messages := Some [\<lparr>role = ''user'', content = ''Hello''\<rparr>]\<rparr>)
   \<and> build_agent_request example_config example_reads
        ((request_with_header None)\<lparr>json_messages := Some [\<lparr>role = ''user'', content = ''Hello''\<rparr>]\<rparr>)
       = Inr \<lparr>agentId = ''A1'', agentAliasId = ''L1'', sessionId = ''session-MY-BOT-01020304'',
              inputText = ''Hello'', enableTrace = False\<rparr>
   \<and> chat_completions example_config echo_agent example_reads
        ((request_with_header None)\<lparr>json_messages := Some [\<lparr>role = ''user'', content = ''Hello''\<rparr>]\<rparr>)
       = Inr (JsonResponse
               \<lparr>completion_id = ''chatcmpl-MY-BOT-0a0b0c0d'', completion_object = ''chat.completion'',
                completion_created = 1700000000, completion_model = ''MY-BOT'',
                completion_choices =
                  [\<lparr>completion_index = 0,
                    completion_message = \<lparr>message_role = ''assistant'', message_content = ''Hello''\<rparr>,
                    completion_finish_reason = ''stop''\<rparr>],
                completion_usage = \<lparr>prompt_tokens = - 1, completion_tokens = - 1, total_tokens = - 1\<rparr>\<rparr>)"
proof -
  have h: "API_KEY example_config \<noteq> '''' \<and> py_lower (API_KEY example_config) \<noteq> ''none''
        \<and> authorization ((request_with_header None)\<lparr>json_messages := Some [\<lparr>role = ''user'', content = ''Hello''\<rparr>]\<rparr>) = None
        \<and> build_agent_request example_config example_reads
             ((request_with_header None)\<lparr>json_messages := Some [\<lparr>role = ''user'', content = ''Hello''\<rparr>]\<rparr>)
            = Inr \<lparr>agentId = ''A1'', agentAliasId = ''L1'', sessionId = ''session-MY-BOT-01020304'',
                   inputText = ''Hello'', enableTrace = False\<rparr>
        \<and> echo_agent \<lparr>agentId = ''A1'', agentAliasId = ''L1'', sessionId = ''session-MY-BOT-01020304'',
                   inputText = ''Hello'', enableTrace = False\<rparr> = Inr [Chunk ''Hello'']"
    using example_unauthenticated by blast
  have c: "collect_completion '''' [Chunk ''Hello''] = Inr ''Hello''"
    by (simp add: decode_utf8_def)
  have m: "json_model ((request_with_header None)\<lparr>json_messages := Some [\<lparr>role = ''user'', content = ''Hello''\<rparr>]\<rparr>) = None"
      "json_stream ((request_with_header None)\<lparr>json_messages := Some [\<lparr>role = ''user'', content = ''Hello''\<rparr>]\<rparr>) = None"
      "DEFAULT_AGENT example_config = ''MY-BOT''"
      "urandom_response example_reads = [CHR 0x0a, CHR 0x0b, CHR 0x0c, CHR 0x0d]"
      "time_now example_reads = 1700000000"
    by (simp_all add: request_with_header_def example_config_def example_reads_def)
  from chat_completions_ignores_authorization[where cfg = example_config
         and sys = example_reads
         and request = "(request_with_header None)\<lparr>json_messages := Some [\<lparr>role = ''user'', content = ''Hello''\<rparr>]\<rparr>"
         and agent_request = "\<lparr>agentId = ''A1'', agentAliasId = ''L1'', sessionId = ''session-MY-BOT-01020304'',
           inputText = ''Hello'', enableTrace = False\<rparr>"
         and invoke_agent = echo_agent and events = "[Chunk ''Hello'']"] h
  have "\<not> validate_api_key example_config
          ((request_with_header None)\<lparr>json_messages := Some [\<lparr>role = ''user'', content = ''Hello''\<rparr>]\<rparr>)
      \<and> chat_completions example_config echo_agent example_reads
          ((request_with_header None)\<lparr>json_messages := Some [\<lparr>role = ''user'', content = ''Hello''\<rparr>]\<rparr>)
        = Inr (JsonResponse (openai_response ''chatcmpl-MY-BOT-0a0b0c0d'' 1700000000 ''MY-BOT'' ''Hello''))"
    by (simp add: m hex_example Let_def decode_utf8_def)
  then show ?thesis
    using h by (simp add: openai_response_def)
qed

text \<open>
  C5, what the code does: with an empty \<^verbatim>\<open>messages\<close> list, or with no \<^verbatim>\<open>messages\<close> key,
  and an agent that resolves, the handler raises the \<^verbatim>\<open>IndexError\<close> of \<^verbatim>\<open>messages[-1]\<close>
  before the backend is called; it returns no error answer.
\<close>

theorem chat_completions_empty_messages:
  "chat_completions example_config invoke_agent example_reads
     ((request_with_header None)\<lparr>json_messages := Some []\<rparr>) = Inl IndexError
   \<and> chat_completions example_config invoke_agent example_reads
     (request_with_header None) = Inl IndexError"
  by (simp add: chat_completions_def build_agent_request_def example_config_def
        request_with_header_def resolve_agent_def input_text_def collapse_def find_anchor_def)

end
